theory Spec2Isabelle
  imports Complex_Main "HOL-Library.Multiset"
begin

section \<open>SkillMatch: the skill-matching and recommendation engine of analysis.py\<close>

text \<open>
  The embedding follows \<^verbatim>\<open>src/analysis.py\<close> function by function. Conventions:
  \<^item> a Python \<^verbatim>\<open>str\<close> is a \<^typ>\<open>string\<close>, read as the UTF-8 bytes of the text;
  \<^item> a number is a rational (\<^typ>\<open>rat\<close>). The precision of one vacancy, a quotient of two
    small integers, is kept as the exact ratio, and the literal \<^verbatim>\<open>0.8\<close> is \<open>4 / 5\<close>; the
    mean of the precisions is computed as the interpreter does, in IEEE binary64 with
    each operation rounded (\<open>binary64\<close> below);
  \<^item> a raised exception is the \<open>Inl\<close> branch of a sum; Python's \<^verbatim>\<open>None\<close> return value is
    an explicit constructor or \<open>None\<close>;
  \<^item> the network is a parameter: a record of functions that say what each request
    answers; so is the interpreter's \<^verbatim>\<open>str.lower\<close>, the case mapping of Unicode.
\<close>

subsection \<open>Exceptions and arithmetic\<close>

datatype py_error = RequestException | ZeroDivisionError

text \<open>\<^verbatim>\<open>a / b\<close> with an integer divisor: raises on a zero divisor.\<close>

definition truediv :: "rat \<Rightarrow> nat \<Rightarrow> py_error + rat" where
  "truediv a b = (if b = 0 then Inl ZeroDivisionError else Inr (a / of_nat b))"

subsection \<open>Binary floating point\<close>

text \<open>
  A Python \<^verbatim>\<open>float\<close> is an IEEE 754 binary64 number: zero, or \<open>\<plusminus> m * 2 ^ k\<close> with
  \<open>m < 2 ^ 53\<close> and \<open>k \<ge> -1074\<close>. Every arithmetic operation returns the binary64 number
  nearest to the exact result, a tie going to the even \<open>m\<close>. Results of magnitude
  \<open>2 ^ 1024\<close> and more, which the interpreter turns into infinities, do not arise from
  the sums and quotients of this program and are not modelled.
\<close>

function floor_log2 :: "nat \<Rightarrow> nat" where
  "floor_log2 n = (if n < 2 then 0 else Suc (floor_log2 (n div 2)))"
  by pat_completeness auto
termination
  by (relation "measure id") auto

declare floor_log2.simps [simp del]

definition pow2 :: "int \<Rightarrow> rat" where
  "pow2 k = (if 0 \<le> k then 2 ^ nat k else 1 / 2 ^ nat (- k))"

text \<open>The exponent \<open>e\<close> of a positive number: \<open>2 ^ e \<le> x < 2 ^ (e + 1)\<close>.\<close>

definition exponent :: "rat \<Rightarrow> int" where
  "exponent x =
     (if 1 \<le> x then int (floor_log2 (nat \<lfloor>x\<rfloor>))
      else let m = nat \<lceil>1 / x\<rceil>
           in - int (if m \<le> 1 then 0 else Suc (floor_log2 (m - 1))))"

definition round_half_even :: "rat \<Rightarrow> int" where
  "round_half_even x =
     (let f = \<lfloor>x\<rfloor>; d = x - of_int f
      in if d < 1 / 2 then f
         else if 1 / 2 < d then f + 1
         else if even f then f else f + 1)"

text \<open>
  The binary64 number nearest to \<open>x\<close>: a multiple of the spacing \<open>2 ^ (e - 52)\<close> of its
  binade, or of \<open>2 ^ -1074\<close> below the normal range.
\<close>

definition binary64 :: "rat \<Rightarrow> rat" where
  "binary64 x =
     (if x = 0 then 0
      else let q = pow2 (max (exponent \<bar>x\<bar> - 52) (- 1074))
           in sgn x * of_int (round_half_even (\<bar>x\<bar> / q)) * q)"

text \<open>
  The built-in \<^verbatim>\<open>sum\<close> on floats adds from left to right, starting from 0, and rounds
  each addition. (From version 3.12 on CPython also carries a correction term for the
  rounding errors; the model follows the plain loop of the earlier versions.)
\<close>

definition float_sum :: "rat list \<Rightarrow> rat" where
  "float_sum xs = foldl (\<lambda>acc x. binary64 (acc + x)) 0 xs"

text \<open>
  \<^verbatim>\<open>s / n\<close> with a float \<open>s\<close> and an integer \<open>n\<close>: the integer is converted to
  a float, a zero divisor raises, the quotient is rounded.
\<close>

definition float_truediv :: "rat \<Rightarrow> nat \<Rightarrow> py_error + rat" where
  "float_truediv s n =
     (if n = 0 then Inl ZeroDivisionError
      else Inr (binary64 (s / binary64 (of_nat n))))"

subsection \<open>Strings\<close>

text \<open>
  \<^verbatim>\<open>str.lower\<close> maps every cased letter of Unicode to lower case. Its table is part
  of the interpreter, not of this program, and the model takes the function as a
  parameter.
\<close>

record interpreter =
  str_lower :: "string \<Rightarrow> string"

text \<open>
  On text made of ASCII characters \<^verbatim>\<open>str.lower\<close> changes the letters \<^verbatim>\<open>A\<close> to \<^verbatim>\<open>Z\<close> and
  nothing else; the examples below use such text only.
\<close>

definition lower_char :: "char \<Rightarrow> char" where
  "lower_char c =
     (let n = (of_char c :: nat)
      in if 65 \<le> n \<and> n \<le> 90 then char_of (n + 32) else c)"

definition ascii_lower :: "string \<Rightarrow> string" where
  "ascii_lower s = map lower_char s"

text \<open>
  \<^verbatim>\<open>urllib.parse.quote_plus\<close> of the standard library, with its default arguments: the
  text is taken as UTF-8 bytes; letters, digits and \<^verbatim>\<open>_.-~\<close> stay, a space becomes
  \<^verbatim>\<open>+\<close>, and any other byte becomes \<^verbatim>\<open>%XX\<close> with two upper-case hexadecimal digits.
\<close>

definition always_safe :: "char \<Rightarrow> bool" where
  "always_safe c \<longleftrightarrow>
     c \<in> set ''ABCDEFGHIJKLMNOPQRSTUVWXYZabcdefghijklmnopqrstuvwxyz0123456789_.-~''"

definition hex_digit :: "nat \<Rightarrow> char" where
  "hex_digit n = ''0123456789ABCDEF'' ! (n mod 16)"

definition quote_byte :: "char \<Rightarrow> string" where
  "quote_byte c =
     (if c = CHR '' '' then ''+''
      else if always_safe c then [c]
      else [CHR ''%'', hex_digit ((of_char c :: nat) div 16), hex_digit ((of_char c :: nat) mod 16)])"

definition quote_plus :: "string \<Rightarrow> string" where
  "quote_plus s = concat (map quote_byte s)"

text \<open>
  The inverse, \<^verbatim>\<open>urllib.parse.unquote_plus\<close> read on bytes: \<^verbatim>\<open>+\<close> is a space, \<^verbatim>\<open>%\<close>
  followed by two hexadecimal digits is the byte they denote, anything else stands for
  itself.
\<close>

definition hex_value :: "char \<Rightarrow> nat option" where
  "hex_value c =
     map_of (zip ''0123456789ABCDEFabcdef''
               [0, 1, 2, 3, 4, 5, 6, 7, 8, 9, 10, 11, 12, 13, 14, 15, 10, 11, 12, 13, 14, 15]) c"

fun unquote_plus :: "string \<Rightarrow> string" where
  "unquote_plus (c # h # l # rest) =
     (if c = CHR ''%''
      then (case (hex_value h, hex_value l) of
              (Some a, Some b) \<Rightarrow> char_of (16 * a + b) # unquote_plus rest
            | _ \<Rightarrow> c # unquote_plus (h # l # rest))
      else (if c = CHR ''+'' then CHR '' '' else c) # unquote_plus (h # l # rest))"
| "unquote_plus (c # rest) = (if c = CHR ''+'' then CHR '' '' else c) # unquote_plus rest"
| "unquote_plus [] = []"

subsection \<open>calculate_precision\<close>

text \<open>
  \<^verbatim>\<open>
  if len(vacancy_skills) == 0:
      return 0
  intersection = len(set(user_skills).intersection(set(vacancy_skills)))
  return intersection / len(vacancy_skills)
  \<close>
\<close>

definition calculate_precision :: "string list \<Rightarrow> string list \<Rightarrow> py_error + rat" where
  "calculate_precision user_skills vacancy_skills =
     (if length vacancy_skills = 0 then Inr 0
      else let intersection = card (set user_skills \<inter> set vacancy_skills)
           in truediv (of_nat intersection) (length vacancy_skills))"

text \<open>
  The ratio over sets that the specification writes, \<open>|S \<inter> R| / |R|\<close>, for comparison
  with what the code computes on sequences.
\<close>

definition set_based_ratio :: "string list \<Rightarrow> string list \<Rightarrow> rat" where
  "set_based_ratio S R = of_nat (card (set S \<inter> set R)) / of_nat (card (set R))"

subsection \<open>Vacancy records and get_top_vacancies\<close>

text \<open>The dictionary built for each vacancy, with exactly the keys the code stores.\<close>

record vacancy =
  name :: string
  alternate_url :: string
  description :: string
  vacancy_skills :: "string list"
  similarity :: rat

text \<open>
  \<^verbatim>\<open>sorted(xs, key=k, reverse=True)\<close>: CPython reverses the list, sorts it stably in
  ascending order of the key, and reverses the result, so that equal keys keep their
  original order.
\<close>

definition sorted_reverse :: "('a \<Rightarrow> rat) \<Rightarrow> 'a list \<Rightarrow> 'a list" where
  "sorted_reverse k xs = rev (sort_key k (rev xs))"

text \<open>
  The slice \<^verbatim>\<open>xs[:n]\<close>: a negative bound counts from the end and is clamped at the
  start of the list.
\<close>

definition slice_to :: "'a list \<Rightarrow> int \<Rightarrow> 'a list" where
  "slice_to xs n =
     (if 0 \<le> n then take (nat n) xs else take (length xs - nat (- n)) xs)"

definition get_top_vacancies :: "vacancy list \<Rightarrow> int \<Rightarrow> vacancy list" where
  "get_top_vacancies vacancies top_n =
     (let sorted_vacancies = sorted_reverse similarity vacancies;
          top_vacancies = slice_to sorted_vacancies top_n
      in top_vacancies)"

text \<open>The call without the optional argument: \<^verbatim>\<open>top_n=3\<close>.\<close>

definition get_top_vacancies_default :: "vacancy list \<Rightarrow> vacancy list" where
  "get_top_vacancies_default vacancies = get_top_vacancies vacancies 3"

subsection \<open>recommend_courses, get_missing_skills, generate_recommendations\<close>

definition search_prefix :: string where
  "search_prefix = ''https://www.coursera.org/search?query=''"

text \<open>
  \<^verbatim>\<open>
  recommendations = []
  for skill in skills:
      search_url = f"https://www.coursera.org/search?query={skill}"
      recommendations.append((skill, search_url))
  return recommendations
  \<close>
\<close>

fun recommend_courses_loop ::
  "(string \<times> string) list \<Rightarrow> string list \<Rightarrow> (string \<times> string) list" where
  "recommend_courses_loop recommendations [] = recommendations"
| "recommend_courses_loop recommendations (skill # skills) =
     (let search_url = search_prefix @ skill
      in recommend_courses_loop (recommendations @ [(skill, search_url)]) skills)"

definition recommend_courses :: "string list \<Rightarrow> (string \<times> string) list" where
  "recommend_courses skills = recommend_courses_loop [] skills"

text \<open>
  A Python \<^verbatim>\<open>set\<close> of strings is a duplicate-free list. The order in which CPython
  iterates a set of strings is not fixed by the language; the model lists the elements
  in order of first insertion, and the theorems about these functions speak of the
  elements and their number only.
\<close>

definition set_add :: "string list \<Rightarrow> string \<Rightarrow> string list" where
  "set_add A x = (if x \<in> set A then A else A @ [x])"

definition set_update :: "string list \<Rightarrow> string list \<Rightarrow> string list" where
  "set_update A xs = foldl set_add A xs"

text \<open>\<^verbatim>\<open>list(set(required_skills) - set(user_skills))\<close>\<close>

definition get_missing_skills :: "string list \<Rightarrow> string list \<Rightarrow> string list" where
  "get_missing_skills user_skills required_skills =
     filter (\<lambda>s. s \<notin> set user_skills) (set_update [] required_skills)"

text \<open>What \<^verbatim>\<open>generate_recommendations\<close> returns: a string, a list of pairs, or nothing.\<close>

datatype recommendation =
    BroadSearchLink string
  | CourseList "(string \<times> string) list"
  | NoValue

text \<open>
  \<^verbatim>\<open>
  for vacancy in vacancies:
      if vacancy["similarity"] < threshold:
          vacancy_miss = get_missing_skills(applicant_skills, vacancy["vacancy_skills"])
          missing_skills.update(vacancy_miss)
  \<close>
\<close>

fun missing_loop :: "string list \<Rightarrow> rat \<Rightarrow> string list \<Rightarrow> vacancy list \<Rightarrow> string list" where
  "missing_loop applicant_skills threshold missing_skills [] = missing_skills"
| "missing_loop applicant_skills threshold missing_skills (v # vacancies) =
     (if similarity v < threshold
      then let vacancy_miss = get_missing_skills applicant_skills (vacancy_skills v)
           in missing_loop applicant_skills threshold (set_update missing_skills vacancy_miss) vacancies
      else missing_loop applicant_skills threshold missing_skills vacancies)"

definition generate_recommendations ::
  "string \<Rightarrow> string list \<Rightarrow> vacancy list \<Rightarrow> rat \<Rightarrow> recommendation" where
  "generate_recommendations vacancy_title applicant_skills vacancies threshold =
     (let missing_skills = missing_loop applicant_skills threshold [] vacancies
      in if length missing_skills > 3
         then let query = quote_plus vacancy_title;
                  profession_url = search_prefix @ query
              in BroadSearchLink profession_url
         else if missing_skills \<noteq> []
         then CourseList (recommend_courses missing_skills)
         else NoValue)"

text \<open>The call without the optional argument: \<^verbatim>\<open>threshold=0.8\<close>.\<close>

definition generate_recommendations_default ::
  "string \<Rightarrow> string list \<Rightarrow> vacancy list \<Rightarrow> recommendation" where
  "generate_recommendations_default vacancy_title applicant_skills vacancies =
     generate_recommendations vacancy_title applicant_skills vacancies (4 / 5)"

text \<open>
  The union of the specification: the missing skills of every vacancy whose precision
  is below the threshold.
\<close>

definition missing_union :: "string list \<Rightarrow> vacancy list \<Rightarrow> rat \<Rightarrow> string set" where
  "missing_union applicant_skills vacancies threshold =
     (\<Union>v \<in> set (filter (\<lambda>v. similarity v < threshold) vacancies).
        set (vacancy_skills v) - set applicant_skills)"

subsection \<open>The network\<close>

text \<open>
  The JSON document of one posting, after the code's \<^verbatim>\<open>data.get(key, default)\<close>
  reads: the names of \<^verbatim>\<open>key_skills\<close> are kept as a list, in the document's order.
\<close>

record posting =
  posting_name :: string
  posting_alternate_url :: string
  posting_description :: string
  key_skills :: "string list"

text \<open>
  \<^verbatim>\<open>get_interview_questions\<close> returns a list of questions, or the empty string when its
  request fails.
\<close>

datatype questions = QuestionList "string list" | EmptyString

text \<open>
  \<open>http_get link\<close> is what \<^verbatim>\<open>requests.get(link)\<close>, \<^verbatim>\<open>raise_for_status()\<close> and
  \<^verbatim>\<open>response.json()\<close> give together: \<open>None\<close> when one of them raises a
  \<^verbatim>\<open>RequestException\<close>, the document otherwise. \<open>interview title\<close> is the value of
  \<^verbatim>\<open>get_interview_questions(get_vacancy_easyoffer(title))\<close>; both functions catch the
  \<^verbatim>\<open>RequestException\<close> of their own requests.
\<close>

record network =
  http_get :: "string \<Rightarrow> posting option"
  interview :: "string \<Rightarrow> questions"

subsection \<open>vacancy_description_and_applicant_skills\<close>

text \<open>
  The returned dictionary: \<^verbatim>\<open>"questions"\<close> and \<^verbatim>\<open>"offers"\<close> are present on one branch,
  \<^verbatim>\<open>"recommendations"\<close> on the other; an absent key is \<open>None\<close>.
\<close>

record result =
  similarity_score :: rat
  precision_list :: "rat list"
  questions :: "questions option"
  offers :: "vacancy list option"
  recommendations :: "recommendation option"

text \<open>
  The body of the \<^verbatim>\<open>for link in links\<close> loop. An exception leaves the loop at once,
  with the lists built so far lost.
\<close>

fun fetch_loop ::
  "interpreter \<Rightarrow> network \<Rightarrow> string list \<Rightarrow> rat list \<Rightarrow> vacancy list \<Rightarrow> string list
     \<Rightarrow> py_error + (rat list \<times> vacancy list)" where
  "fetch_loop py net applicant_skills precisions vacancies [] = Inr (precisions, vacancies)"
| "fetch_loop py net applicant_skills precisions vacancies (link # links) =
     (case http_get net link of
        None \<Rightarrow> Inl RequestException
      | Some data \<Rightarrow>
          (let skills = map (str_lower py) (key_skills data)
           in case calculate_precision applicant_skills skills of
                Inl e \<Rightarrow> Inl e
              | Inr precision \<Rightarrow>
                  fetch_loop py net applicant_skills
                    (precisions @ [precision])
                    (vacancies @
                       [\<lparr>name = posting_name data,
                         alternate_url = posting_alternate_url data,
                         description = posting_description data,
                         vacancy_skills = skills,
                         similarity = precision\<rparr>])
                    links))"

text \<open>
  The \<^verbatim>\<open>try\<close> block after the loop. \<^verbatim>\<open>sum(precisions) / len(precisions)\<close> is float
  arithmetic: each precision enters the sum as the binary64 value of its ratio, and
  the division raises \<^verbatim>\<open>ZeroDivisionError\<close> on the empty list. The call of
  \<^verbatim>\<open>generate_recommendations\<close> passes three arguments.
\<close>

definition analyse ::
  "interpreter \<Rightarrow> network \<Rightarrow> string \<Rightarrow> string list \<Rightarrow> string list \<Rightarrow> rat
     \<Rightarrow> py_error + result" where
  "analyse py net vacancy_title applicant_skills links threshold_ready =
     (case fetch_loop py net applicant_skills [] [] links of
        Inl e \<Rightarrow> Inl e
      | Inr (precisions, vacancies) \<Rightarrow>
          (case float_truediv (float_sum (map binary64 precisions)) (length precisions) of
             Inl e \<Rightarrow> Inl e
           | Inr score \<Rightarrow>
               (if score \<ge> threshold_ready
                then Inr \<lparr>similarity_score = score, precision_list = precisions,
                          questions = Some (interview net vacancy_title),
                          offers = Some (get_top_vacancies_default vacancies),
                          recommendations = None\<rparr>
                else Inr \<lparr>similarity_score = score, precision_list = precisions,
                          questions = None,
                          offers = None,
                          recommendations =
                            Some (generate_recommendations_default vacancy_title
                                    applicant_skills vacancies)\<rparr>)))"

text \<open>
  The whole function: the \<^verbatim>\<open>except requests.RequestException\<close> clause turns that one
  exception into the return value \<^verbatim>\<open>None\<close>; any other exception leaves the function.
\<close>

definition vacancy_description_and_applicant_skills ::
  "interpreter \<Rightarrow> network \<Rightarrow> string \<Rightarrow> string list \<Rightarrow> string list \<Rightarrow> rat
     \<Rightarrow> py_error + result option" where
  "vacancy_description_and_applicant_skills py net vacancy_title applicant_skills links
       threshold_ready =
     (let applicant_skills = map (str_lower py) applicant_skills
      in case analyse py net vacancy_title applicant_skills links threshold_ready of
           Inl RequestException \<Rightarrow> Inr None
         | Inl e \<Rightarrow> Inl e
         | Inr r \<Rightarrow> Inr (Some r))"



definition is_not_ready :: "result \<Rightarrow> bool" where
  "is_not_ready r \<longleftrightarrow> questions r = None \<and> offers r = None \<and> recommendations r \<noteq> None"

subsection \<open>What the loop stores for a resolved posting\<close>

text \<open>
  The precision and the dictionary that one pass of the loop appends for the document
  \<open>data\<close>; \<^verbatim>\<open>calculate_precision\<close> is the code's own.
\<close>

definition precision_of :: "interpreter \<Rightarrow> string list \<Rightarrow> posting \<Rightarrow> rat" where
  "precision_of py applicant_skills data =
     (case calculate_precision applicant_skills (map (str_lower py) (key_skills data)) of
        Inr precision \<Rightarrow> precision
      | Inl e \<Rightarrow> 0)"

definition record_of :: "interpreter \<Rightarrow> string list \<Rightarrow> posting \<Rightarrow> vacancy" where
  "record_of py applicant_skills data =
     \<lparr>name = posting_name data,
      alternate_url = posting_alternate_url data,
      description = posting_description data,
      vacancy_skills = map (str_lower py) (key_skills data),
      similarity = precision_of py applicant_skills data\<rparr>"

subsection \<open>Example data\<close>

text \<open>
  A vacancy record and a posting with empty link and description, a network on which
  the references \<^verbatim>\<open>a\<close>, \<^verbatim>\<open>b\<close> and \<^verbatim>\<open>c\<close> resolve and every other reference fails, and
  the interpreter on ASCII text.
\<close>

definition vac :: "string \<Rightarrow> string list \<Rightarrow> rat \<Rightarrow> vacancy" where
  "vac n skills p =
     \<lparr>name = n, alternate_url = [], description = [], vacancy_skills = skills, similarity = p\<rparr>"

definition post :: "string \<Rightarrow> string list \<Rightarrow> posting" where
  "post n skills =
     \<lparr>posting_name = n, posting_alternate_url = [], posting_description = [], key_skills = skills\<rparr>"

definition example_net :: network where
  "example_net =
     \<lparr>http_get = (\<lambda>link.
        if link = ''a'' then Some (post ''A'' [''Python'', ''SQL''])
        else if link = ''b'' then
          Some (post ''B'' [''python'', ''sql'', ''git'', ''docker'', ''linux'', ''react''])
        else if link = ''c'' then
          Some (post ''C'' [''python'', ''sql'', ''git'', ''docker'', ''linux''])
        else None),
      interview = (\<lambda>title. QuestionList [''What is a join?''])\<rparr>"

definition ascii_py :: interpreter where
  "ascii_py = \<lparr>str_lower = ascii_lower\<rparr>"

section \<open>Properties\<close>

subsection \<open>Precision\<close>

lemma calculate_precision_value:
  "calculate_precision S R =
     Inr (if R = [] then 0 else of_nat (card (set S \<inter> set R)) / of_nat (length R))"
  by (simp add: calculate_precision_def truediv_def)

text \<open>
  C1. The precision calculator returns 0 when the required skills are empty and
  otherwise the number of required skills the applicant has, divided by the number of
  required skills; it returns a value on every input. A skill set is a sequence without
  repetitions: \<open>distinct R\<close>.
\<close>

theorem calculate_precision_set_ratio:
  "calculate_precision S [] = Inr 0 \<and>
   (distinct R \<longrightarrow>
      calculate_precision S R = Inr (if set R = {} then 0 else set_based_ratio S R)) \<and>
   (\<exists>p. calculate_precision S R = Inr p)"
  by (simp add: calculate_precision_value set_based_ratio_def distinct_card)

theorem calculate_precision_set_ratio_witness:
  "distinct [''python'', ''sql'', ''docker''] \<and>
   calculate_precision [''python'', ''sql''] [''python'', ''sql'', ''docker''] = Inr (2 / 3)"
  using calculate_precision_set_ratio [of "[''python'', ''sql'']" "[''python'', ''sql'', ''docker'']"]
  by (simp add: set_based_ratio_def)

lemma inter_card_le: "card (set S \<inter> set R) \<le> card (set R)"
  by (simp add: card_mono)

text \<open>
  C8. For skill sets \<open>S\<close> and \<open>R\<close> (\<open>R\<close> without repetitions), the precision is 1
  exactly when every required skill is an applicant skill and \<open>R\<close> is not empty.
\<close>

theorem precision_one_iff:
  assumes "distinct R"
  shows "calculate_precision S R = Inr 1 \<longleftrightarrow> set R \<subseteq> set S \<and> R \<noteq> []"
proof (cases "R = []")
  case True
  then show ?thesis by (simp add: calculate_precision_value)
next
  case False
  have len: "length R = card (set R)"
    using assms by (simp add: distinct_card)
  have "calculate_precision S R = Inr 1 \<longleftrightarrow> card (set S \<inter> set R) = card (set R)"
    using False len by (auto simp add: calculate_precision_value)
  also have "\<dots> \<longleftrightarrow> set S \<inter> set R = set R"
    by (metis List.finite_set card_subset_eq inf_le2)
  also have "\<dots> \<longleftrightarrow> set R \<subseteq> set S"
    by blast
  finally show ?thesis using False by simp
qed

theorem precision_one_iff_witness:
  "distinct [''python'', ''sql''] \<and>
   calculate_precision [''sql'', ''git'', ''python''] [''python'', ''sql''] = Inr 1 \<and>
   calculate_precision [''sql'', ''git''] [''python'', ''sql''] \<noteq> Inr 1"
  using precision_one_iff [of "[''python'', ''sql'']" "[''sql'', ''git'', ''python'']"]
    precision_one_iff [of "[''python'', ''sql'']" "[''sql'', ''git'']"]
  by simp

text \<open>
  C9. On a required-skills sequence with repetitions the intersection is counted
  without repetitions and the divisor is the length of the sequence as given. The result
  lies in \<open>[0, 1]\<close> and is at most the ratio over sets; it is strictly smaller exactly
  when the applicant has at least one of the required skills. With no skill in common
  both are 0: the applicant \<open>[]\<close> against \<open>[a, a]\<close>.
\<close>

theorem precision_duplicates_counterexample:
  "\<not> distinct [''a'', ''a''] \<and>
   calculate_precision [] [''a'', ''a''] = Inr 0 \<and>
   \<not> (0 < set_based_ratio [] [''a'', ''a''])"
  by (simp add: calculate_precision_value set_based_ratio_def)

text \<open>
  C9, as the code has it: on a required-skills sequence with repetitions the result is
  the number of distinct common skills divided by the length of the sequence as given,
  which is larger than the number of distinct required skills. The result lies in
  \<open>[0, 1]\<close>, is at most the ratio over sets, and is strictly below it exactly when a
  required skill is held.
\<close>

theorem precision_duplicates:
  assumes "\<not> distinct R"
  shows "calculate_precision S R
           = Inr (of_nat (card (set S \<inter> set R)) / of_nat (length R)) \<and>
         card (set R) < length R \<and>
         (0 :: rat) \<le> of_nat (card (set S \<inter> set R)) / of_nat (length R) \<and>
         (of_nat (card (set S \<inter> set R)) / of_nat (length R) :: rat) \<le> 1 \<and>
         (of_nat (card (set S \<inter> set R)) / of_nat (length R) :: rat) \<le> set_based_ratio S R \<and>
         ((of_nat (card (set S \<inter> set R)) / of_nat (length R) :: rat) < set_based_ratio S R
            \<longleftrightarrow> set S \<inter> set R \<noteq> {})"
proof -
  let ?k = "card (set S \<inter> set R)" and ?m = "card (set R)" and ?n = "length R"
  have ne: "R \<noteq> []" using assms by auto
  have mn: "?m < ?n"
    using assms card_length [of R] card_distinct [of R] by linarith
  have m0: "0 < ?m" using ne by (simp add: card_gt_0_iff)
  have km: "?k \<le> ?m" by (rule inter_card_le)
  have k0: "0 < ?k \<longleftrightarrow> set S \<inter> set R \<noteq> {}" by (simp add: card_gt_0_iff)
  let ?p = "(of_nat ?k :: rat) / of_nat ?n"
  have val: "calculate_precision S R = Inr ?p"
    using ne by (simp add: calculate_precision_value)
  have p0: "0 \<le> ?p" by simp
  have p1: "?p \<le> 1" using km mn by (simp add: divide_le_eq_1)
  have le: "?p \<le> set_based_ratio S R"
    unfolding set_based_ratio_def using mn m0 ne
    by (intro divide_left_mono) (simp_all add: zero_less_mult_iff)
  have lt: "?p < set_based_ratio S R \<longleftrightarrow> 0 < ?k"
  proof (cases "?k = 0")
    case True
    then show ?thesis by (simp add: set_based_ratio_def)
  next
    case False
    then have kpos: "0 < ?k" by linarith
    have "?p < (of_nat ?k :: rat) / of_nat ?m"
      using mn m0 ne kpos
      by (intro divide_strict_left_mono) (simp_all add: zero_less_mult_iff del: card_0_eq)
    then show ?thesis using kpos by (simp add: set_based_ratio_def del: card_0_eq)
  qed
  show ?thesis
  proof (intro conjI)
    show "calculate_precision S R = Inr ?p" by (rule val)
    show "?m < ?n" by (rule mn)
    show "0 \<le> ?p" by (rule p0)
    show "?p \<le> 1" by (rule p1)
    show "?p \<le> set_based_ratio S R" by (rule le)
    show "?p < set_based_ratio S R \<longleftrightarrow> set S \<inter> set R \<noteq> {}"
      using lt k0 by (rule trans)
  qed
qed

text \<open>
  The applicant \<open>[a, b]\<close> against \<open>[a, a, b, c, c]\<close>: two common skills, five entries,
  three distinct required skills.
\<close>

theorem precision_duplicates_witness:
  "\<not> distinct [''a'', ''a'', ''b'', ''c'', ''c''] \<and>
   calculate_precision [''a'', ''b''] [''a'', ''a'', ''b'', ''c'', ''c''] = Inr (2 / 5) \<and>
   card (set [''a'', ''a'', ''b'', ''c'', ''c'']) = 3 \<and>
   set_based_ratio [''a'', ''b''] [''a'', ''a'', ''b'', ''c'', ''c''] = 2 / 3 \<and>
   (2 / 5 :: rat) < 2 / 3"
proof -
  have k: "card (set [''a'', ''b''] \<inter> set [''a'', ''a'', ''b'', ''c'', ''c'']) = 2"
    by code_simp
  have m: "card (set [''a'', ''a'', ''b'', ''c'', ''c'']) = 3"
    by code_simp
  show ?thesis
    using precision_duplicates [of "[''a'', ''a'', ''b'', ''c'', ''c'']" "[''a'', ''b'']"]
    unfolding set_based_ratio_def k m
    by simp
qed

lemma recommend_courses_loop_append:
  "recommend_courses_loop acc skills =
     acc @ map (\<lambda>skill. (skill, search_prefix @ skill)) skills"
  by (induction skills arbitrary: acc) simp_all

text \<open>
  C10. The course-recommendation step returns one (skill, url) pair for each element
  of its input, in the input's order, and each url is the search prefix followed by the
  skill text as it is, with no encoding of the skill.
\<close>

theorem recommend_courses_literal:
  "recommend_courses skills =
     map (\<lambda>skill. (skill, ''https://www.coursera.org/search?query='' @ skill)) skills \<and>
   length (recommend_courses skills) = length skills \<and>
   map fst (recommend_courses skills) = skills"
  by (simp add: recommend_courses_def recommend_courses_loop_append search_prefix_def comp_def)

subsection \<open>Top vacancies\<close>

lemma mset_sorted_reverse: "mset (sorted_reverse k xs) = mset xs"
  by (simp add: sorted_reverse_def)

lemma sorted_reverse_descending:
  "sorted_wrt (\<lambda>a b. k a \<ge> k b) (sorted_reverse k xs)"
proof -
  have "sorted (map k (sort_key k (rev xs)))"
    by (rule sorted_sort_key)
  then have "sorted_wrt (\<lambda>a b. k a \<le> k b) (sort_key k (rev xs))"
    by (simp add: sorted_map)
  then show ?thesis
    by (simp add: sorted_reverse_def sorted_wrt_rev)
qed

lemma sorted_reverse_stable:
  "filter (\<lambda>x. k x = p) (sorted_reverse k xs) = filter (\<lambda>x. k x = p) xs"
proof -
  have "filter (\<lambda>x. k x = p) (sorted_reverse k xs)
          = rev (filter (\<lambda>x. k x = p) (sort_key k (rev xs)))"
    by (simp add: sorted_reverse_def rev_filter)
  also have "\<dots> = rev (filter (\<lambda>x. k x = p) (rev xs))"
    by (simp only: sort_key_stable)
  also have "\<dots> = filter (\<lambda>x. k x = p) xs"
    by (simp add: rev_filter)
  finally show ?thesis .
qed

lemma length_sorted_reverse: "length (sorted_reverse k xs) = length xs"
  by (simp add: sorted_reverse_def)

text \<open>
  C7. \<open>get_top_vacancies v n\<close> is \<open>v\<close> sorted stably by precision in descending order
  and cut by the slice \<^verbatim>\<open>[:n]\<close>; \<open>n\<close> defaults to 3. The claim that a negative \<open>n\<close> gives
  the empty sequence fails: with two vacancies and \<open>n = -1\<close> the slice drops the last
  element of the sorted list and keeps the best vacancy.
\<close>

theorem get_top_vacancies_counterexample:
  "get_top_vacancies [vac ''A'' [] (1 / 2), vac ''B'' [] 1] (- 1) = [vac ''B'' [] 1] \<and>
   get_top_vacancies [vac ''A'' [] (1 / 2), vac ''B'' [] 1] (- 1) \<noteq> []"
  by (simp add: get_top_vacancies_def sorted_reverse_def slice_to_def vac_def)

text \<open>
  C7, as the code has it: the sorted list is a permutation of the input, descending in
  precision, with equal precisions in their original order; for \<open>n \<ge> 0\<close> the result is
  its first \<open>n\<close> elements (none for \<open>n = 0\<close>), for \<open>n < 0\<close> it is the sorted list without
  its last \<open>-n\<close> elements; the default is \<open>n = 3\<close>.
\<close>

theorem get_top_vacancies_stable_slice:
  "mset (sorted_reverse similarity v) = mset v \<and>
   sorted_wrt (\<lambda>a b. similarity a \<ge> similarity b) (sorted_reverse similarity v) \<and>
   (\<forall>p. filter (\<lambda>x. similarity x = p) (sorted_reverse similarity v)
          = filter (\<lambda>x. similarity x = p) v) \<and>
   (0 \<le> n \<longrightarrow> get_top_vacancies v n = take (nat n) (sorted_reverse similarity v)) \<and>
   (n < 0 \<longrightarrow> get_top_vacancies v n
                = take (length v - nat (- n)) (sorted_reverse similarity v)) \<and>
   get_top_vacancies v 0 = [] \<and>
   get_top_vacancies_default v = get_top_vacancies v 3"
  by (simp add: mset_sorted_reverse sorted_reverse_descending sorted_reverse_stable
      get_top_vacancies_def get_top_vacancies_default_def slice_to_def length_sorted_reverse)

theorem get_top_vacancies_stable_slice_witness:
  "(0::int) \<le> 2 \<and>
   get_top_vacancies [vac ''A'' [] (9 / 10), vac ''B'' [] (17 / 20), vac ''C'' [] (9 / 10), vac ''D'' [] (19 / 20)] 2
     = [vac ''D'' [] (19 / 20), vac ''A'' [] (9 / 10)] \<and>
   (- 1 :: int) < 0 \<and>
   get_top_vacancies [vac ''A'' [] (9 / 10), vac ''B'' [] (17 / 20), vac ''C'' [] (9 / 10), vac ''D'' [] (19 / 20)] (- 1)
     = [vac ''D'' [] (19 / 20), vac ''A'' [] (9 / 10), vac ''C'' [] (9 / 10)]"
  using get_top_vacancies_stable_slice
    [of "[vac ''A'' [] (9 / 10), vac ''B'' [] (17 / 20), vac ''C'' [] (9 / 10), vac ''D'' [] (19 / 20)]" 2]
    get_top_vacancies_stable_slice
    [of "[vac ''A'' [] (9 / 10), vac ''B'' [] (17 / 20), vac ''C'' [] (9 / 10), vac ''D'' [] (19 / 20)]" "- 1"]
  by (simp add: sorted_reverse_def vac_def)

subsection \<open>Recommendations\<close>

lemma set_set_add: "set (set_add A x) = insert x (set A)"
  by (auto simp: set_add_def)

lemma distinct_set_add: "distinct A \<Longrightarrow> distinct (set_add A x)"
  by (simp add: set_add_def)

lemma set_set_update: "set (set_update A xs) = set A \<union> set xs"
  unfolding set_update_def
  by (induction xs arbitrary: A) (auto simp: set_set_add)

lemma distinct_set_update: "distinct A \<Longrightarrow> distinct (set_update A xs)"
  unfolding set_update_def
  by (induction xs arbitrary: A) (simp_all add: distinct_set_add)

lemma set_get_missing_skills:
  "set (get_missing_skills user_skills required_skills) = set required_skills - set user_skills"
  by (auto simp: get_missing_skills_def set_set_update)

lemma set_missing_loop:
  "set (missing_loop a th acc vs) = set acc \<union> missing_union a vs th"
  by (induction vs arbitrary: acc)
     (auto simp: missing_union_def set_set_update set_get_missing_skills)

lemma distinct_missing_loop:
  "distinct acc \<Longrightarrow> distinct (missing_loop a th acc vs)"
  by (induction vs arbitrary: acc) (simp_all add: distinct_set_update)

lemma length_missing_loop:
  "length (missing_loop a th [] vs) = card (missing_union a vs th)"
proof -
  have "distinct (missing_loop a th [] vs)"
    by (rule distinct_missing_loop) simp
  then have "length (missing_loop a th [] vs) = card (set (missing_loop a th [] vs))"
    by (simp add: distinct_card)
  then show ?thesis by (simp add: set_missing_loop)
qed

lemma recommend_courses_map:
  "recommend_courses skills = map (\<lambda>skill. (skill, search_prefix @ skill)) skills"
  by (simp add: recommend_courses_def recommend_courses_loop_append)

lemma hex_digit_safe: "always_safe (hex_digit n)"
proof -
  have "hex_digit n \<in> set ''0123456789ABCDEF''"
    unfolding hex_digit_def by (rule nth_mem) simp
  then show ?thesis by (auto simp: always_safe_def)
qed

lemma quote_byte_chars:
  "c' \<in> set (quote_byte c) \<Longrightarrow> always_safe c' \<or> c' = CHR ''+'' \<or> c' = CHR ''%''"
  by (auto simp: quote_byte_def hex_digit_safe split: if_splits)

lemma quote_plus_chars:
  "c \<in> set (quote_plus s) \<Longrightarrow> always_safe c \<or> c = CHR ''+'' \<or> c = CHR ''%''"
  unfolding quote_plus_def using quote_byte_chars by auto

lemma hex_value_hex_digit: "hex_value (hex_digit n) = Some (n mod 16)"
proof -
  have all: "list_all (\<lambda>k. hex_value (hex_digit k) = Some k) [0..<16]"
    by code_simp
  have "n mod 16 \<in> set [0..<16]" by simp
  with all have "hex_value (hex_digit (n mod 16)) = Some (n mod 16)"
    unfolding list_all_iff by blast
  then show ?thesis by (simp add: hex_digit_def)
qed

lemma always_safe_plain: "always_safe c \<Longrightarrow> c \<noteq> CHR ''%'' \<and> c \<noteq> CHR ''+'' \<and> c \<noteq> CHR '' ''"
  by (auto simp: always_safe_def)

lemma unquote_plus_plain:
  "c \<noteq> CHR ''%'' \<Longrightarrow>
   unquote_plus (c # s) = (if c = CHR ''+'' then CHR '' '' else c) # unquote_plus s"
  by (cases "(c # s)" rule: unquote_plus.cases) auto

lemma unquote_plus_escape:
  "hex_value h = Some a \<Longrightarrow> hex_value l = Some b \<Longrightarrow>
   unquote_plus (CHR ''%'' # h # l # s) = char_of (16 * a + b) # unquote_plus s"
  by simp

lemma unquote_plus_quote_byte: "unquote_plus (quote_byte c @ s) = c # unquote_plus s"
proof -
  let ?n = "of_char c :: nat"
  have n: "?n < 256" by simp
  have hi: "hex_value (hex_digit (?n div 16)) = Some (?n div 16)"
    using n hex_value_hex_digit [of "?n div 16"] by (simp add: less_mult_imp_div_less)
  have lo: "hex_value (hex_digit (?n mod 16)) = Some (?n mod 16)"
    using hex_value_hex_digit [of "?n mod 16"] by simp
  have decoded: "char_of (16 * (?n div 16) + ?n mod 16) = c"
    by simp
  show ?thesis
  proof (cases "c = CHR '' ''")
    case True
    then show ?thesis by (simp add: quote_byte_def unquote_plus_plain)
  next
    case False
    show ?thesis
    proof (cases "always_safe c")
      case True
      then show ?thesis
        using False always_safe_plain [of c] by (simp add: quote_byte_def unquote_plus_plain)
    next
      case unsafe: False
      have "unquote_plus (quote_byte c @ s)
              = char_of (16 * (?n div 16) + ?n mod 16) # unquote_plus s"
        using False unsafe unquote_plus_escape [OF hi lo, of s] by (simp add: quote_byte_def)
      then show ?thesis by (simp only: decoded)
    qed
  qed
qed

lemma unquote_plus_quote_plus: "unquote_plus (quote_plus s) = s"
  by (induction s) (simp_all add: quote_plus_def unquote_plus_quote_byte)

lemma quote_plus_bytes:
  "quote_plus title
     = concat (map (\<lambda>c.
         if c = CHR '' '' then ''+''
         else if c \<in> set ''ABCDEFGHIJKLMNOPQRSTUVWXYZabcdefghijklmnopqrstuvwxyz0123456789_.-~''
         then [c]
         else [CHR ''%'', ''0123456789ABCDEF'' ! (of_char c div 16),
               ''0123456789ABCDEF'' ! (of_char c mod 16)]) title)"
proof -
  have high: "(of_char c :: nat) div 16 mod 16 = of_char c div 16" for c :: char
  proof -
    have "(of_char c :: nat) < 256" by simp
    then have "(of_char c :: nat) div 16 < 16" by (simp add: less_mult_imp_div_less)
    then show ?thesis by simp
  qed
  have "quote_byte = (\<lambda>c.
         if c = CHR '' '' then ''+''
         else if c \<in> set ''ABCDEFGHIJKLMNOPQRSTUVWXYZabcdefghijklmnopqrstuvwxyz0123456789_.-~''
         then [c]
         else [CHR ''%'', ''0123456789ABCDEF'' ! (of_char c div 16),
               ''0123456789ABCDEF'' ! (of_char c mod 16)])"
    by (rule ext) (simp only: quote_byte_def always_safe_def hex_digit_def high mod_mod_trivial)
  then show ?thesis
    by (simp only: quote_plus_def)
qed

text \<open>
  C5. Let \<open>U\<close> be the union of the missing skills over the vacancies whose precision is
  below the threshold. If \<open>U\<close> has more than 3 elements the outcome is the broad search
  link: the search prefix followed by the percent-encoded title, in which a space is
  \<^verbatim>\<open>+\<close>, an unreserved character stands for itself and every other byte is \<^verbatim>\<open>%\<close> with
  its two hexadecimal digits, so that decoding gives the title back. If \<open>U\<close> is not empty
  and has at most 3 elements the outcome is a course list with exactly \<open>|U|\<close> entries,
  one for each distinct missing skill, each with the search link of its skill.
\<close>

theorem generate_recommendations_by_union:
  "(let U = missing_union applicant_skills vacancies threshold;
        outcome = generate_recommendations title applicant_skills vacancies threshold
    in (3 < card U \<longrightarrow>
          (\<exists>query. outcome = BroadSearchLink (''https://www.coursera.org/search?query='' @ query) \<and>
             query = concat (map (\<lambda>c.
                 if c = CHR '' '' then ''+''
                 else if c \<in> set ''ABCDEFGHIJKLMNOPQRSTUVWXYZabcdefghijklmnopqrstuvwxyz0123456789_.-~''
                 then [c]
                 else [CHR ''%'', ''0123456789ABCDEF'' ! (of_char c div 16),
                       ''0123456789ABCDEF'' ! (of_char c mod 16)]) title) \<and>
             unquote_plus query = title \<and>
             (\<forall>c \<in> set query. always_safe c \<or> c = CHR ''+'' \<or> c = CHR ''%''))) \<and>
       (U \<noteq> {} \<and> card U \<le> 3 \<longrightarrow>
          (\<exists>courses. outcome = CourseList courses \<and> length courses = card U \<and>
             distinct (map fst courses) \<and> set (map fst courses) = U \<and>
             map snd courses
               = map (\<lambda>skill. ''https://www.coursera.org/search?query='' @ skill)
                   (map fst courses))))"
proof -
  let ?U = "missing_union applicant_skills vacancies threshold"
  let ?m = "missing_loop applicant_skills threshold [] vacancies"
  let ?enc = "\<lambda>c. if c = CHR '' '' then ''+''
                 else if c \<in> set ''ABCDEFGHIJKLMNOPQRSTUVWXYZabcdefghijklmnopqrstuvwxyz0123456789_.-~''
                 then [c]
                 else [CHR ''%'', ''0123456789ABCDEF'' ! (of_char c div 16),
                       ''0123456789ABCDEF'' ! (of_char c mod 16)]"
  have len: "length ?m = card ?U" by (rule length_missing_loop)
  have set_m: "set ?m = ?U" by (simp add: set_missing_loop)
  have dist: "distinct ?m" by (rule distinct_missing_loop) simp
  have broad: "\<exists>query.
      generate_recommendations title applicant_skills vacancies threshold
        = BroadSearchLink (''https://www.coursera.org/search?query='' @ query) \<and>
      query = concat (map ?enc title) \<and>
      unquote_plus query = title \<and>
      (\<forall>c \<in> set query. always_safe c \<or> c = CHR ''+'' \<or> c = CHR ''%'')"
    if "3 < card ?U"
  proof (intro exI conjI)
    show "generate_recommendations title applicant_skills vacancies threshold
        = BroadSearchLink (''https://www.coursera.org/search?query='' @ quote_plus title)"
      using that len by (simp add: generate_recommendations_def search_prefix_def)
    show "quote_plus title = concat (map ?enc title)"
      by (rule quote_plus_bytes)
    show "unquote_plus (quote_plus title) = title"
      by (rule unquote_plus_quote_plus)
    show "\<forall>c \<in> set (quote_plus title). always_safe c \<or> c = CHR ''+'' \<or> c = CHR ''%''"
      using quote_plus_chars by blast
  qed
  have courses: "\<exists>courses.
      generate_recommendations title applicant_skills vacancies threshold = CourseList courses \<and>
      length courses = card ?U \<and> distinct (map fst courses) \<and> set (map fst courses) = ?U \<and>
      map snd courses
        = map (\<lambda>skill. ''https://www.coursera.org/search?query='' @ skill) (map fst courses)"
    if "?U \<noteq> {}" "card ?U \<le> 3"
  proof (intro exI conjI)
    have ne: "?m \<noteq> []" using that(1) set_m by auto
    show "generate_recommendations title applicant_skills vacancies threshold
            = CourseList (recommend_courses ?m)"
      using that(2) len ne by (simp add: generate_recommendations_def)
    show "length (recommend_courses ?m) = card ?U"
      using len by (simp add: recommend_courses_map)
    show "distinct (map fst (recommend_courses ?m))"
      using dist by (simp add: recommend_courses_map comp_def)
    show "set (map fst (recommend_courses ?m)) = ?U"
      using set_m by (simp add: recommend_courses_map comp_def)
    show "map snd (recommend_courses ?m)
            = map (\<lambda>skill. ''https://www.coursera.org/search?query='' @ skill)
                (map fst (recommend_courses ?m))"
      by (simp add: recommend_courses_map comp_def search_prefix_def)
  qed
  show ?thesis
    unfolding Let_def using broad courses by blast
qed

lemma union_scenario_d:
  "missing_union [''python'']
      [vac ''A'' [''python'', ''sql''] (1 / 2),
       vac ''B'' [''python'', ''sql'', ''docker'', ''react'', ''aws''] (1 / 5)] (4 / 5)
     = {''sql'', ''docker'', ''react'', ''aws''}"
  by (auto simp: missing_union_def vac_def)

lemma union_single:
  "missing_union [''python''] [vac ''A'' [''python'', ''sql''] (1 / 2), vac ''B'' [''go''] 1] (4 / 5)
     = {''sql''}"
  by (auto simp: missing_union_def vac_def)

lemma quote_plus_examples:
  "quote_plus ''Data Scientist'' = ''Data+Scientist''"
  "quote_plus ''C#/.NET Developer'' = ''C%23%2F.NET+Developer''"
  "unquote_plus ''C%23%2F.NET+Developer'' = ''C#/.NET Developer''"
  by code_simp+

text \<open>
  Scenario D of the specification with a title that needs escapes, and a single
  missing skill.
\<close>

theorem generate_recommendations_by_union_witness:
  "3 < card (missing_union [''python'']
      [vac ''A'' [''python'', ''sql''] (1 / 2),
       vac ''B'' [''python'', ''sql'', ''docker'', ''react'', ''aws''] (1 / 5)] (4 / 5)) \<and>
   generate_recommendations ''C#/.NET Developer'' [''python'']
      [vac ''A'' [''python'', ''sql''] (1 / 2),
       vac ''B'' [''python'', ''sql'', ''docker'', ''react'', ''aws''] (1 / 5)] (4 / 5)
     = BroadSearchLink ''https://www.coursera.org/search?query=C%23%2F.NET+Developer'' \<and>
   unquote_plus ''C%23%2F.NET+Developer'' = ''C#/.NET Developer'' \<and>
   missing_union [''python''] [vac ''A'' [''python'', ''sql''] (1 / 2), vac ''B'' [''go''] 1] (4 / 5) \<noteq> {} \<and>
   card (missing_union [''python''] [vac ''A'' [''python'', ''sql''] (1 / 2), vac ''B'' [''go''] 1] (4 / 5)) \<le> 3 \<and>
   generate_recommendations ''C#/.NET Developer'' [''python'']
      [vac ''A'' [''python'', ''sql''] (1 / 2), vac ''B'' [''go''] 1] (4 / 5)
     = CourseList [(''sql'', ''https://www.coursera.org/search?query=sql'')]"
proof -
  have a: "3 < card {''sql'', ''docker'', ''react'', ''aws''}" by simp
  have b: "{''sql''} \<noteq> ({} :: string set) \<and> card {''sql''} \<le> 3" by simp
  have c: "courses = [(''sql'', ''https://www.coursera.org/search?query=sql'')]"
    if len: "length courses = 1" and skills: "set (map fst courses) = {''sql''}"
      and urls: "map snd courses
        = map (\<lambda>skill. ''https://www.coursera.org/search?query='' @ skill) (map fst courses)"
    for courses :: "(string \<times> string) list"
  proof -
    obtain x where x: "courses = [x]"
      by (cases courses) (use len in auto)
    then show ?thesis using skills urls by (cases x) auto
  qed
  have enc: "concat (map (\<lambda>c.
                 if c = CHR '' '' then ''+''
                 else if c \<in> set ''ABCDEFGHIJKLMNOPQRSTUVWXYZabcdefghijklmnopqrstuvwxyz0123456789_.-~''
                 then [c]
                 else [CHR ''%'', ''0123456789ABCDEF'' ! (of_char c div 16),
                       ''0123456789ABCDEF'' ! (of_char c mod 16)]) ''C#/.NET Developer'')
             = ''C%23%2F.NET+Developer''"
    using quote_plus_bytes [of "''C#/.NET Developer''"] quote_plus_examples(2) by simp
  show ?thesis
    using generate_recommendations_by_union
        [of "[''python'']"
            "[vac ''A'' [''python'', ''sql''] (1 / 2),
              vac ''B'' [''python'', ''sql'', ''docker'', ''react'', ''aws''] (1 / 5)]"
            "4 / 5" "''C#/.NET Developer''"]
      generate_recommendations_by_union
        [of "[''python'']" "[vac ''A'' [''python'', ''sql''] (1 / 2), vac ''B'' [''go''] 1]"
            "4 / 5" "''C#/.NET Developer''"]
      a b c
    unfolding Let_def union_scenario_d union_single enc quote_plus_examples(3)
    by auto
qed

subsection \<open>The readiness branch\<close>

lemmas evaluation = vacancy_description_and_applicant_skills_def analyse_def example_net_def post_def
      calculate_precision_value ascii_py_def ascii_lower_def lower_char_def char_of_def bit_Suc_0_iff
      truediv_def float_truediv_def
      get_top_vacancies_default_def get_top_vacancies_def sorted_reverse_def slice_to_def

text \<open>The built-in sum, written as one fold over the exact ratios.\<close>

lemma float_sum_map_binary64:
  "float_sum (map binary64 xs) = foldl (\<lambda>acc p. binary64 (acc + binary64 p)) 0 xs"
  by (simp add: float_sum_def foldl_map)

text \<open>
  Values of the rounding and of the mean, as the interpreter prints them:
  \<^verbatim>\<open>(0.8).as_integer_ratio()\<close>, \<^verbatim>\<open>sum([0.1, 0.2, 0.3])\<close>, \<^verbatim>\<open>sum([0.4, 1.0, 1.0]) / 3\<close>.
\<close>

lemma binary64_examples:
  "binary64 (4 / 5) = 3602879701896397 / 4503599627370496"
  "binary64 (1 / 3) = 6004799503160661 / 18014398509481984"
  "binary64 (- 7 / 3) = - (5254199565265579 / 2251799813685248)"
  "binary64 3 = 3"
  "float_sum (map binary64 [1 / 10, 1 / 5, 3 / 10]) = 1351079888211149 / 2251799813685248"
  "float_truediv (float_sum (map binary64 [2 / 5, 1, 1])) 3
     = Inr (7205759403792793 / 9007199254740992)"
  by code_simp+

lemma calculate_precision_precision_of:
  "calculate_precision a (map (str_lower py) (key_skills d)) = Inr (precision_of py a d)"
  by (simp add: precision_of_def calculate_precision_value)

lemma fetch_loop_resolved:
  "those (map (http_get net) links) = Some postings \<Longrightarrow>
   fetch_loop py net a precisions vacancies links
     = Inr (precisions @ map (precision_of py a) postings,
            vacancies @ map (record_of py a) postings)"
proof (induction links arbitrary: precisions vacancies postings)
  case Nil
  then show ?case by simp
next
  case (Cons link links)
  from Cons.prems obtain d ds where d: "http_get net link = Some d"
    and ds: "those (map (http_get net) links) = Some ds" and ps: "postings = d # ds"
    by (auto split: option.splits)
  show ?case
    using Cons.IH [OF ds] d ps
    by (simp add: calculate_precision_precision_of record_of_def)
qed

lemma fetch_loop_failed:
  "\<exists>link \<in> set links. http_get net link = None \<Longrightarrow>
   fetch_loop py net a precisions vacancies links = Inl RequestException"
proof (induction links arbitrary: precisions vacancies)
  case Nil
  then show ?case by simp
next
  case (Cons link links)
  show ?case
  proof (cases "http_get net link")
    case None
    then show ?thesis by simp
  next
    case (Some d)
    with Cons.prems have "\<exists>l \<in> set links. http_get net l = None" by auto
    then show ?thesis
      using Cons.IH Some by (simp add: calculate_precision_precision_of)
  qed
qed

lemma analyse_resolved:
  assumes "those (map (http_get net) links) = Some postings" and "postings \<noteq> []"
  shows "analyse py net title a links th =
     (let precisions = map (precision_of py a) postings;
          score = binary64 (foldl (\<lambda>acc p. binary64 (acc + binary64 p)) 0 precisions
                              / binary64 (of_nat (length precisions)))
      in if th \<le> score
         then Inr \<lparr>similarity_score = score, precision_list = precisions,
                   questions = Some (interview net title),
                   offers = Some (get_top_vacancies (map (record_of py a) postings) 3),
                   recommendations = None\<rparr>
         else Inr \<lparr>similarity_score = score, precision_list = precisions,
                   questions = None, offers = None,
                   recommendations =
                     Some (generate_recommendations title a (map (record_of py a) postings) (4 / 5))\<rparr>)"
  using assms(2)
  by (simp add: analyse_def fetch_loop_resolved [OF assms(1), of py a "[]" "[]", simplified]
      float_truediv_def float_sum_map_binary64 Let_def
      get_top_vacancies_default_def generate_recommendations_default_def)





text \<open>
  C3. The claim that a reference which fails to resolve is skipped, the other records
  being kept, fails: with the references \<^verbatim>\<open>a\<close> (resolves) and \<^verbatim>\<open>x\<close> (fails) the
  evaluation returns \<^verbatim>\<open>None\<close>, although \<^verbatim>\<open>a\<close> alone gives a result.
\<close>

theorem fetch_failure_counterexample:
  "http_get example_net ''a'' \<noteq> None \<and>
   http_get example_net ''x'' = None \<and>
   vacancy_description_and_applicant_skills ascii_py example_net ''dev'' [''Python'', ''sql'']
     [''a'', ''x''] (4 / 5) = Inr None \<and>
   vacancy_description_and_applicant_skills ascii_py example_net ''dev'' [''Python'', ''sql'']
     [''a''] (4 / 5) \<noteq> Inr None"
proof (intro conjI)
  show "http_get example_net ''a'' \<noteq> None" and "http_get example_net ''x'' = None"
    by (simp_all add: example_net_def)
  have "fetch_loop ascii_py example_net (map (str_lower ascii_py) [''Python'', ''sql'']) [] []
          [''a'', ''x''] = Inl RequestException"
    by (rule fetch_loop_failed) (simp add: example_net_def)
  then show "vacancy_description_and_applicant_skills ascii_py example_net ''dev''
      [''Python'', ''sql''] [''a'', ''x''] (4 / 5) = Inr None"
    by (simp add: vacancy_description_and_applicant_skills_def analyse_def)
  have res: "those (map (http_get example_net) [''a'']) = Some [post ''A'' [''Python'', ''SQL'']]"
    by (simp add: example_net_def)
  show "vacancy_description_and_applicant_skills ascii_py example_net ''dev''
      [''Python'', ''sql''] [''a''] (4 / 5) \<noteq> Inr None"
    unfolding vacancy_description_and_applicant_skills_def Let_def
    by (simp add: analyse_resolved [OF res] Let_def)
qed

text \<open>
  C3, as the code has it: one reference that fails with a \<^verbatim>\<open>RequestException\<close> ends
  the loop, no record of the batch is returned and the evaluation returns \<^verbatim>\<open>None\<close>; when
  every reference resolves the loop returns one record per reference, in input order.
\<close>

theorem fetch_failure_aborts:
  "((\<exists>link \<in> set links. http_get net link = None) \<longrightarrow>
      fetch_loop py net (map (str_lower py) skills) [] [] links = Inl RequestException \<and>
      vacancy_description_and_applicant_skills py net title skills links threshold_ready
        = Inr None) \<and>
   (those (map (http_get net) links) = Some postings \<longrightarrow>
      fetch_loop py net (map (str_lower py) skills) [] [] links
        = Inr (map (precision_of py (map (str_lower py) skills)) postings,
               map (record_of py (map (str_lower py) skills)) postings))"
proof (intro conjI impI)
  assume f: "\<exists>link \<in> set links. http_get net link = None"
  show "fetch_loop py net (map (str_lower py) skills) [] [] links = Inl RequestException"
    using f by (rule fetch_loop_failed)
  then show "vacancy_description_and_applicant_skills py net title skills links threshold_ready
        = Inr None"
    by (simp add: vacancy_description_and_applicant_skills_def analyse_def)
next
  assume "those (map (http_get net) links) = Some postings"
  then show "fetch_loop py net (map (str_lower py) skills) [] [] links
        = Inr (map (precision_of py (map (str_lower py) skills)) postings,
               map (record_of py (map (str_lower py) skills)) postings)"
    using fetch_loop_resolved [of net links postings py "map (str_lower py) skills" "[]" "[]"]
    by simp
qed

theorem fetch_failure_aborts_witness:
  "(\<exists>link \<in> set [''a'', ''x'', ''b'']. http_get example_net link = None) \<and>
   fetch_loop ascii_py example_net (map (str_lower ascii_py) [''Python'']) [] []
     [''a'', ''x'', ''b''] = Inl RequestException \<and>
   vacancy_description_and_applicant_skills ascii_py example_net ''dev'' [''Python'']
     [''a'', ''x'', ''b''] (4 / 5) = Inr None \<and>
   those (map (http_get example_net) [''a'']) = Some [post ''A'' [''Python'', ''SQL'']] \<and>
   fetch_loop ascii_py example_net (map (str_lower ascii_py) [''Python'']) [] [] [''a'']
     = Inr ([1 / 2],
            [\<lparr>name = ''A'', alternate_url = [], description = [],
              vacancy_skills = [''python'', ''sql''], similarity = 1 / 2\<rparr>])"
proof -
  have f: "\<exists>link \<in> set [''a'', ''x'', ''b'']. http_get example_net link = None"
    by (simp add: example_net_def)
  have r: "those (map (http_get example_net) [''a'']) = Some [post ''A'' [''Python'', ''SQL'']]"
    by (simp add: example_net_def)
  have v: "map (precision_of ascii_py (map (str_lower ascii_py) [''Python'']))
             [post ''A'' [''Python'', ''SQL'']] = [1 / 2]"
    "map (record_of ascii_py (map (str_lower ascii_py) [''Python''])) [post ''A'' [''Python'', ''SQL'']]
       = [\<lparr>name = ''A'', alternate_url = [], description = [],
              vacancy_skills = [''python'', ''sql''], similarity = 1 / 2\<rparr>]"
    by (simp_all add: record_of_def precision_of_def evaluation)
  show ?thesis
    using f r
      fetch_failure_aborts [of "[''a'', ''x'', ''b'']" example_net ascii_py "[''Python'']"
        "''dev''" "4 / 5" "[]"]
      fetch_failure_aborts [of "[''a'']" example_net ascii_py "[''Python'']" "''dev''" "4 / 5"
        "[post ''A'' [''Python'', ''SQL'']]"]
    unfolding v [symmetric]
    by simp
qed

text \<open>
  C4. With no posting reference the loop leaves both lists empty and the mean divides
  by zero: the evaluation ends with a \<^verbatim>\<open>ZeroDivisionError\<close>, which the handler for
  \<^verbatim>\<open>RequestException\<close> does not catch, instead of returning a failure value.
\<close>

theorem empty_links_zero_division:
  "vacancy_description_and_applicant_skills py net title skills [] threshold_ready
     = Inl ZeroDivisionError"
  by (simp add: vacancy_description_and_applicant_skills_def analyse_def float_truediv_def)

lemma example_single:
  "vacancy_description_and_applicant_skills ascii_py example_net ''dev''
      [''python'', ''sql'', ''git'', ''docker'', ''linux''] [''b''] 1
     = Inr (Some \<lparr>similarity_score = 7505999378950827 / 9007199254740992,
                   precision_list = [5 / 6],
                   questions = None, offers = None, recommendations = Some NoValue\<rparr>)"
proof -
  let ?skills = "[''python'', ''sql'', ''git'', ''docker'', ''linux'']"
  let ?postings = "[post ''B'' [''python'', ''sql'', ''git'', ''docker'', ''linux'', ''react'']]"
  have res: "those (map (http_get example_net) [''b'']) = Some ?postings"
    by (simp add: example_net_def)
  have ne: "?postings \<noteq> []" by simp
  have precisions: "map (precision_of ascii_py (map (str_lower ascii_py) ?skills)) ?postings = [5 / 6]"
    by (simp add: precision_of_def evaluation)
  have mean: "binary64 (foldl (\<lambda>acc p. binary64 (acc + binary64 p)) 0 [5 / 6]
                          / binary64 (of_nat (length [5 / 6 :: rat])))
              = 7505999378950827 / 9007199254740992"
    by code_simp
  show ?thesis
    unfolding vacancy_description_and_applicant_skills_def Let_def
      analyse_resolved [OF res ne] precisions mean
    by (simp add: record_of_def precision_of_def evaluation generate_recommendations_def
        get_missing_skills_def set_update_def set_add_def)
qed

text \<open>
  C6. The claim that the recommendation step receives the \<open>threshold_ready\<close> of the
  readiness comparison fails: with \<open>threshold_ready = 1\<close> and one vacancy of precision
  \<open>5/6\<close> the evaluation is NotReady and its recommendation is empty, as computed with
  the threshold 0.8, while the threshold 1 gives a course for the missing skill. The
  score is the binary64 value of \<open>5/6\<close>, 0.8333333333333334.
\<close>

theorem recommendation_threshold_counterexample:
  "vacancy_description_and_applicant_skills ascii_py example_net ''dev''
      [''python'', ''sql'', ''git'', ''docker'', ''linux''] [''b''] 1
     = Inr (Some \<lparr>similarity_score = 7505999378950827 / 9007199254740992,
                   precision_list = [5 / 6],
                   questions = None, offers = None, recommendations = Some NoValue\<rparr>) \<and>
   generate_recommendations ''dev'' [''python'', ''sql'', ''git'', ''docker'', ''linux'']
      [\<lparr>name = ''B'', alternate_url = [], description = [],
        vacancy_skills = [''python'', ''sql'', ''git'', ''docker'', ''linux'', ''react''],
        similarity = 5 / 6\<rparr>] 1
     = CourseList [(''react'', ''https://www.coursera.org/search?query=react'')]"
  by (simp add: example_single generate_recommendations_def
      get_missing_skills_def set_update_def set_add_def recommend_courses_def search_prefix_def)

text \<open>
  C6, as the code has it: on the NotReady branch the recommendation is computed with
  the default threshold 0.8 of \<^verbatim>\<open>generate_recommendations\<close>, whatever \<open>threshold_ready\<close>
  is; the two agree when \<open>threshold_ready\<close> is 0.8.
\<close>

theorem not_ready_uses_default_threshold:
  assumes "those (map (http_get net) links) = Some postings"
    and "vacancy_description_and_applicant_skills py net title skills links threshold_ready
           = Inr (Some r)"
    and "is_not_ready r"
  shows "recommendations r
           = Some (generate_recommendations title (map (str_lower py) skills)
                     (map (record_of py (map (str_lower py) skills)) postings) (4 / 5)) \<and>
         (threshold_ready = 4 / 5 \<longrightarrow>
            recommendations r
              = Some (generate_recommendations title (map (str_lower py) skills)
                        (map (record_of py (map (str_lower py) skills)) postings) threshold_ready))"
proof -
  have ne: "postings \<noteq> []"
  proof
    assume "postings = []"
    with assms(1) have "links = []" by (cases links) (auto split: option.splits)
    with assms(2) show False
      by (simp add: vacancy_description_and_applicant_skills_def analyse_def float_truediv_def)
  qed
  have fixed: "recommendations r
           = Some (generate_recommendations title (map (str_lower py) skills)
                     (map (record_of py (map (str_lower py) skills)) postings) (4 / 5))"
    using assms(2,3)
    by (auto simp add: vacancy_description_and_applicant_skills_def
        analyse_resolved [OF assms(1) ne] Let_def is_not_ready_def split: if_splits)
  show ?thesis
  proof (intro conjI impI)
    show "recommendations r
           = Some (generate_recommendations title (map (str_lower py) skills)
                     (map (record_of py (map (str_lower py) skills)) postings) (4 / 5))"
      by (rule fixed)
  next
    assume "threshold_ready = 4 / 5"
    then show "recommendations r
           = Some (generate_recommendations title (map (str_lower py) skills)
                     (map (record_of py (map (str_lower py) skills)) postings) threshold_ready)"
      using fixed by (simp only:)
  qed
qed

lemma example_pair:
  "vacancy_description_and_applicant_skills ascii_py example_net ''dev'' [''Python'', ''sql'']
      [''a'', ''b''] (4 / 5)
     = Inr (Some \<lparr>similarity_score = 6004799503160661 / 9007199254740992,
                   precision_list = [1, 1 / 3],
                   questions = None, offers = None,
                   recommendations =
                     Some (BroadSearchLink ''https://www.coursera.org/search?query=dev'')\<rparr>)"
proof -
  let ?skills = "[''Python'', ''sql'']"
  let ?postings = "[post ''A'' [''Python'', ''SQL''],
             post ''B'' [''python'', ''sql'', ''git'', ''docker'', ''linux'', ''react'']]"
  have res: "those (map (http_get example_net) [''a'', ''b'']) = Some ?postings"
    by (simp add: example_net_def)
  have ne: "?postings \<noteq> []" by simp
  have precisions: "map (precision_of ascii_py (map (str_lower ascii_py) ?skills)) ?postings
      = [1, 1 / 3]"
    by (simp add: precision_of_def evaluation)
  have mean: "binary64 (foldl (\<lambda>acc p. binary64 (acc + binary64 p)) 0 [1, 1 / 3]
                          / binary64 (of_nat (length [1, 1 / 3 :: rat])))
              = 6004799503160661 / 9007199254740992"
    by code_simp
  show ?thesis
    unfolding vacancy_description_and_applicant_skills_def Let_def
      analyse_resolved [OF res ne] precisions mean
    by (simp add: record_of_def precision_of_def evaluation generate_recommendations_def
        get_missing_skills_def set_update_def set_add_def search_prefix_def
        quote_plus_def quote_byte_def always_safe_def)
qed

theorem not_ready_uses_default_threshold_witness:
  "those (map (http_get example_net) [''b''])
     = Some [post ''B'' [''python'', ''sql'', ''git'', ''docker'', ''linux'', ''react'']] \<and>
   vacancy_description_and_applicant_skills ascii_py example_net ''dev''
      [''python'', ''sql'', ''git'', ''docker'', ''linux''] [''b''] 1
     = Inr (Some \<lparr>similarity_score = 7505999378950827 / 9007199254740992,
                   precision_list = [5 / 6],
                   questions = None, offers = None, recommendations = Some NoValue\<rparr>) \<and>
   is_not_ready \<lparr>similarity_score = 7505999378950827 / 9007199254740992,
                   precision_list = [5 / 6],
                   questions = None, offers = None, recommendations = Some NoValue\<rparr> \<and>
   generate_recommendations ''dev''
      (map (str_lower ascii_py) [''python'', ''sql'', ''git'', ''docker'', ''linux''])
      (map (record_of ascii_py
              (map (str_lower ascii_py) [''python'', ''sql'', ''git'', ''docker'', ''linux'']))
         [post ''B'' [''python'', ''sql'', ''git'', ''docker'', ''linux'', ''react'']]) (4 / 5)
     = NoValue \<and>
   those (map (http_get example_net) [''a'', ''b''])
     = Some [post ''A'' [''Python'', ''SQL''],
             post ''B'' [''python'', ''sql'', ''git'', ''docker'', ''linux'', ''react'']] \<and>
   vacancy_description_and_applicant_skills ascii_py example_net ''dev'' [''Python'', ''sql'']
      [''a'', ''b''] (4 / 5)
     = Inr (Some \<lparr>similarity_score = 6004799503160661 / 9007199254740992,
                   precision_list = [1, 1 / 3],
                   questions = None, offers = None,
                   recommendations =
                     Some (BroadSearchLink ''https://www.coursera.org/search?query=dev'')\<rparr>) \<and>
   is_not_ready \<lparr>similarity_score = 6004799503160661 / 9007199254740992,
                   precision_list = [1, 1 / 3],
                   questions = None, offers = None,
                   recommendations =
                     Some (BroadSearchLink ''https://www.coursera.org/search?query=dev'')\<rparr> \<and>
   (4 / 5 :: rat) = 4 / 5 \<and>
   generate_recommendations ''dev'' (map (str_lower ascii_py) [''Python'', ''sql''])
      (map (record_of ascii_py (map (str_lower ascii_py) [''Python'', ''sql'']))
         [post ''A'' [''Python'', ''SQL''],
          post ''B'' [''python'', ''sql'', ''git'', ''docker'', ''linux'', ''react'']]) (4 / 5)
     = BroadSearchLink ''https://www.coursera.org/search?query=dev''"
proof -
  have a: "those (map (http_get example_net) [''b''])
     = Some [post ''B'' [''python'', ''sql'', ''git'', ''docker'', ''linux'', ''react'']]"
    by (simp add: example_net_def)
  note b = example_single
  have c: "is_not_ready \<lparr>similarity_score = 7505999378950827 / 9007199254740992,
                   precision_list = [5 / 6],
                   questions = None, offers = None, recommendations = Some NoValue\<rparr>"
    by (simp add: is_not_ready_def)
  have a': "those (map (http_get example_net) [''a'', ''b''])
     = Some [post ''A'' [''Python'', ''SQL''],
             post ''B'' [''python'', ''sql'', ''git'', ''docker'', ''linux'', ''react'']]"
    by (simp add: example_net_def)
  note b' = example_pair
  have c': "is_not_ready \<lparr>similarity_score = 6004799503160661 / 9007199254740992,
                   precision_list = [1, 1 / 3],
                   questions = None, offers = None,
                   recommendations =
                     Some (BroadSearchLink ''https://www.coursera.org/search?query=dev'')\<rparr>"
    by (simp add: is_not_ready_def)
  show ?thesis
    using a b c a' b' c'
      not_ready_uses_default_threshold [OF a b c]
      not_ready_uses_default_threshold [OF a' b' c']
    by simp
qed

end
